theory Spec2Isabelle
  imports Complex_Main "HOL-Library.Signed_Division" "HOL-Library.Log_Nat" "HOL-Library.Sublist"
begin

section \<open>Reducers\<close>

text \<open>
  The aggregate values are Go \<^verbatim>\<open>float64\<close>s obtained by decoding JSON numbers, hence
  finite and never NaN. A value is modelled by the real number it denotes. On such values
  \<^verbatim>\<open>math.Min\<close>, \<^verbatim>\<open>math.Max\<close> and the comparison with the zero value are exact; the
  additions of \<^verbatim>\<open>sum\<close> and the division of \<^verbatim>\<open>avg\<close> round in the code and are exact in
  the model, and no statement below depends on them.
\<close>

type_synonym float64 = real

text \<open>
  Each reducer has a named result \<^verbatim>\<open>value float64\<close>, which Go initialises to zero, and a
  \<^verbatim>\<open>for _, v := range values\<close> loop updating it: a left fold from 0.
\<close>

definition sum_go :: "float64 list \<Rightarrow> float64" where
  "sum_go values = foldl (\<lambda>value v. value + v) 0 values"

definition min_go :: "float64 list \<Rightarrow> float64" where
  "min_go values = foldl (\<lambda>value v. min v value) 0 values"

definition max_go :: "float64 list \<Rightarrow> float64" where
  "max_go values = foldl (\<lambda>value v. max v value) 0 values"

definition count_go :: "float64 list \<Rightarrow> float64" where
  "count_go values = real (length values)"

text \<open>\<^verbatim>\<open>avg\<close> is only called on a non-empty list (the caller skips an empty one).\<close>

definition avg_go :: "float64 list \<Rightarrow> float64" where
  "avg_go values = sum_go values / count_go values"

section \<open>Configuration model\<close>

text \<open>
  \<^verbatim>\<open>OutputConfig.calc\<close> is a function value: nil, or one of the five reducers of the
  package. The model names the reducer that is bound; \<open>apply_Reducer\<close> is the function a
  name stands for.
\<close>

datatype Reducer = RSum | RMin | RMax | RAvg | RCount

fun apply_Reducer :: "Reducer \<Rightarrow> float64 list \<Rightarrow> float64" where
  "apply_Reducer RSum = sum_go"
| "apply_Reducer RMin = min_go"
| "apply_Reducer RMax = max_go"
| "apply_Reducer RAvg = avg_go"
| "apply_Reducer RCount = count_go"

record OutputConfig =
  oc_Func :: string
  oc_Name :: string
  oc_calc :: "Reducer option"

record MetricConfig =
  mc_Name :: string
  mc_Outputs :: "OutputConfig list"

record AggregateDefinition =
  ad_Service :: string
  ad_Role :: string
  ad_Roles :: "string list"
  ad_Statuses :: "string list"
  ad_Metrics :: "MetricConfig list"

text \<open>
  The four probe configurations (\<^verbatim>\<open>PingProbeConfig\<close>, \<^verbatim>\<open>TCPProbeConfig\<close>,
  \<^verbatim>\<open>HTTPProbeConfig\<close>, \<^verbatim>\<open>CommandProbeConfig\<close>) are declared outside the files at hand;
  they are type parameters. A nil pointer is \<open>None\<close>.
\<close>

record ('ping, 'tcp, 'http, 'command) ProbeDefinition =
  pd_Service :: string
  pd_Role :: string
  pd_Roles :: "string list"
  pd_Statuses :: "string list"
  pd_Ping :: "'ping option"
  pd_TCP :: "'tcp option"
  pd_HTTP :: "'http option"
  pd_Command :: "'command option"

record ('ping, 'tcp, 'http, 'command) Config =
  location :: string
  APIKey :: string
  Probes :: "('ping, 'tcp, 'http, 'command) ProbeDefinition list"
  PostProbedMetrics :: bool
  Aggregates :: "AggregateDefinition list"
  PostAggregatedMetrics :: bool
  ProbeOnly :: "bool option"

datatype error = ErrNoAPIKey | ErrWrap error string | ErrExternal string

text \<open>
  The log lines of level warn, error and info, by the statement that prints them (the
  formatted text and the debug and trace lines are not modelled).
\<close>

datatype log =
    WarnProbeOnly
  | WarnFuncNotAvailable string string
  | ErrorCannotGenerate string error
  | WarnLoad error
  | WarnStillUsingCurrent
  | InfoConfigReloaded

subsection \<open>GenerateProbes\<close>

text \<open>
  \<^verbatim>\<open>GenerateProbe\<close> of each probe configuration is a parameter (the command variant is
  given the client as well, which is part of the parameter here). The function threads
  the slice \<^verbatim>\<open>probes\<close> and the log through the four \<^verbatim>\<open>if\<close> statements.
\<close>

definition generate_one ::
  "string \<Rightarrow> 'c option \<Rightarrow> ('c \<Rightarrow> 'host \<Rightarrow> error + 'probe) \<Rightarrow> 'host \<Rightarrow>
   'probe list \<times> log list \<Rightarrow> 'probe list \<times> log list" where
  "generate_one kind config gen host st =
     (case config of
        None \<Rightarrow> st
      | Some cfg \<Rightarrow>
          (case gen cfg host of
             Inl err \<Rightarrow> (fst st, snd st @ [ErrorCannotGenerate kind err])
           | Inr p \<Rightarrow> (fst st @ [p], snd st)))"

definition GenerateProbes ::
  "('ping \<Rightarrow> 'host \<Rightarrow> error + 'probe) \<Rightarrow> ('tcp \<Rightarrow> 'host \<Rightarrow> error + 'probe) \<Rightarrow>
   ('http \<Rightarrow> 'host \<Rightarrow> error + 'probe) \<Rightarrow> ('command \<Rightarrow> 'host \<Rightarrow> error + 'probe) \<Rightarrow>
   ('ping, 'tcp, 'http, 'command) ProbeDefinition \<Rightarrow> 'host \<Rightarrow> 'probe list \<times> log list" where
  "GenerateProbes genPing genTCP genHTTP genCommand pd host =
     (let st0 = ([], []);
          st1 = generate_one ''ping'' (pd_Ping pd) genPing host st0;
          st2 = generate_one ''tcp'' (pd_TCP pd) genTCP host st1;
          st3 = generate_one ''http'' (pd_HTTP pd) genHTTP host st2;
          st4 = generate_one ''command'' (pd_Command pd) genCommand host st3
      in st4)"

subsection \<open>initialize\<close>

definition initialize_pd ::
  "('ping, 'tcp, 'http, 'command) ProbeDefinition \<Rightarrow> ('ping, 'tcp, 'http, 'command) ProbeDefinition" where
  "initialize_pd pd =
     (if pd_Role pd \<noteq> '''' then pd\<lparr>pd_Roles := pd_Roles pd @ [pd_Role pd]\<rparr> else pd)"

definition initialize_ad :: "AggregateDefinition \<Rightarrow> AggregateDefinition" where
  "initialize_ad ad =
     (if ad_Role ad \<noteq> '''' then ad\<lparr>ad_Roles := ad_Roles ad @ [ad_Role ad]\<rparr> else ad)"

definition initialize ::
  "('ping, 'tcp, 'http, 'command) Config \<Rightarrow> ('ping, 'tcp, 'http, 'command) Config" where
  "initialize c = c\<lparr>Probes := map initialize_pd (Probes c),
                     Aggregates := map initialize_ad (Aggregates c)\<rparr>"

subsection \<open>validate\<close>

text \<open>
  \<^verbatim>\<open>strings.ToLower\<close> on the bytes of an ASCII string; other bytes are left as they are.
\<close>

definition lower_char :: "char \<Rightarrow> char" where
  "lower_char c =
     (case map_of (zip ''ABCDEFGHIJKLMNOPQRSTUVWXYZ'' ''abcdefghijklmnopqrstuvwxyz'') c of
        Some d \<Rightarrow> d
      | None \<Rightarrow> c)"

definition ToLower :: "string \<Rightarrow> string" where
  "ToLower s = map lower_char s"

definition validate_output :: "string \<Rightarrow> OutputConfig \<Rightarrow> OutputConfig \<times> log list" where
  "validate_output mcName oc =
     (let f = ToLower (oc_Func oc) in
      if f = ''sum'' then (oc\<lparr>oc_calc := Some RSum\<rparr>, [])
      else if f = ''min'' then (oc\<lparr>oc_calc := Some RMin\<rparr>, [])
      else if f = ''max'' then (oc\<lparr>oc_calc := Some RMax\<rparr>, [])
      else if f = ''avg'' \<or> f = ''average'' then (oc\<lparr>oc_calc := Some RAvg\<rparr>, [])
      else if f = ''count'' then (oc\<lparr>oc_calc := Some RCount\<rparr>, [])
      else (oc, [WarnFuncNotAvailable (oc_Func oc) mcName]))"

definition validate_mc :: "MetricConfig \<Rightarrow> MetricConfig \<times> log list" where
  "validate_mc mc =
     (let rs = map (validate_output (mc_Name mc)) (mc_Outputs mc)
      in (mc\<lparr>mc_Outputs := map fst rs\<rparr>, concat (map snd rs)))"

definition validate_ad :: "AggregateDefinition \<Rightarrow> AggregateDefinition \<times> log list" where
  "validate_ad ag =
     (let rs = map validate_mc (ad_Metrics ag)
      in (ag\<lparr>ad_Metrics := map fst rs\<rparr>, concat (map snd rs)))"

text \<open>
  \<^verbatim>\<open>validate\<close> updates the configuration in place and returns an error or nil; the model
  returns the error, or the updated configuration with the lines logged.
\<close>

definition validate ::
  "('ping, 'tcp, 'http, 'command) Config \<Rightarrow>
   error + ('ping, 'tcp, 'http, 'command) Config \<times> log list" where
  "validate c =
     (if APIKey c = '''' then Inl ErrNoAPIKey
      else
        let (c1, l1) = (case ProbeOnly c of
                          None \<Rightarrow> (c, [])
                        | Some po \<Rightarrow> (c\<lparr>PostProbedMetrics := \<not> po\<rparr>, [WarnProbeOnly]));
            rs = map validate_ad (Aggregates c1)
        in Inr (c1\<lparr>Aggregates := map fst rs\<rparr>, l1 @ concat (map snd rs)))"

subsection \<open>LoadConfig\<close>

text \<open>
  Reading the location (\<^verbatim>\<open>fetch\<close>) and \<^verbatim>\<open>yaml.Unmarshal\<close> are parameters, as is the value
  of the environment variable for the API key. \<^verbatim>\<open>LoadConfig\<close> returns the configuration
  together with the error of \<^verbatim>\<open>validate\<close>; both callers drop the configuration when the
  error is not nil, and so does the model.
\<close>

definition LoadConfig ::
  "(string \<Rightarrow> error + string) \<Rightarrow>
   (string \<Rightarrow> ('ping, 'tcp, 'http, 'command) Config \<Rightarrow> error + ('ping, 'tcp, 'http, 'command) Config) \<Rightarrow>
   string \<Rightarrow> string \<Rightarrow> error + ('ping, 'tcp, 'http, 'command) Config \<times> log list" where
  "LoadConfig fetch unmarshal apikeyEnv loc =
     (let c = \<lparr>location = loc, APIKey = apikeyEnv, Probes = [], PostProbedMetrics = True,
               Aggregates = [], PostAggregatedMetrics = True, ProbeOnly = None\<rparr>
      in case fetch loc of
           Inl err \<Rightarrow> Inl (ErrWrap err ''load config failed'')
         | Inr b \<Rightarrow>
             (case unmarshal b c of
                Inl err \<Rightarrow> Inl err
              | Inr c' \<Rightarrow> validate (initialize c')))"

section \<open>Time and the tunables\<close>

text \<open>
  A \<^verbatim>\<open>time.Duration\<close> is a number of nanoseconds; an instant (\<^verbatim>\<open>time.Time\<close>) is modelled
  by its number of nanoseconds since the Unix epoch, as an unbounded integer.
\<close>

type_synonym Duration = int
type_synonym Time = int

definition Second :: Duration where
  "Second = 1000000000"

definition Minute :: Duration where
  "Minute = 60 * Second"

definition PostMetricBufferLength :: nat where
  "PostMetricBufferLength = 100"

definition ProbeInterval :: Duration where
  "ProbeInterval = 60 * Second"

definition mackerelRetryInterval :: Duration where
  "mackerelRetryInterval = 10 * Second"

definition metricTimeMargin :: Duration where
  "metricTimeMargin = - 3 * Minute"

definition time_Unix :: "int \<Rightarrow> int \<Rightarrow> Time" where
  "time_Unix sec nsec = sec * 1000000000 + nsec"

definition Add :: "Time \<Rightarrow> Duration \<Rightarrow> Time" where
  "Add t d = t + d"

definition After :: "Time \<Rightarrow> Time \<Rightarrow> bool" where
  "After t u = (u < t)"

text \<open>
  The conversion \<^verbatim>\<open>float64(n)\<close> of an \<^verbatim>\<open>int64\<close> rounds to 53 significant bits, to nearest
  and to even on a tie; it is exact up to \<open>2 ^ 53\<close> in magnitude. The conversion
  \<^verbatim>\<open>int64(x)\<close> truncates towards zero; outside the range of \<^verbatim>\<open>int64\<close> Go leaves the
  result to the implementation, and the model takes the value amd64 produces.
\<close>

definition float64_of_int64 :: "int \<Rightarrow> float64" where
  "float64_of_int64 n =
     (if \<bar>n\<bar> \<le> 2 ^ 53 then of_int n
      else
        let e = nat (bitlen \<bar>n\<bar> - 53);
            q = \<bar>n\<bar> div 2 ^ e;
            r = \<bar>n\<bar> mod 2 ^ e;
            h = 2 ^ (e - 1);
            q' = (if h < r \<or> (r = h \<and> odd q) then q + 1 else q)
        in of_int (sgn n * q' * 2 ^ e))"

definition int64_of_float64 :: "float64 \<Rightarrow> int" where
  "int64_of_float64 x =
     (let i = (if 0 \<le> x then \<lfloor>x\<rfloor> else \<lceil>x\<rceil>)
      in if - (2 ^ 63) \<le> i \<and> i < 2 ^ 63 then i else - (2 ^ 63))"

section \<open>Probe runner\<close>

text \<open>Of a \<^verbatim>\<open>mackerel.Host\<close> the code at hand reads the ID and the name.\<close>

record Host =
  host_ID :: string
  host_Name :: string

text \<open>
  What the goroutine of \<^verbatim>\<open>runProbes\<close> itself does, in order: it sleeps, and it starts
  a host task with \<^verbatim>\<open>go func(host)\<close>. The host tasks run concurrently and are not part of
  this model. \<^verbatim>\<open>client.FindHosts\<close> is a parameter. Go's integer division truncates
  towards zero (\<open>sdiv\<close>).
\<close>

datatype action = Sleep Duration | Launch Host

definition spawnInterval :: "nat \<Rightarrow> Duration" where
  "spawnInterval n =
     (let d = ProbeInterval sdiv int n sdiv 2
      in if Second < d then Second else d)"

definition runProbes ::
  "(string \<Rightarrow> string list \<Rightarrow> string list \<Rightarrow> error + Host list) \<Rightarrow>
   ('ping, 'tcp, 'http, 'command) ProbeDefinition \<Rightarrow> action list" where
  "runProbes FindHosts pd =
     (case FindHosts (pd_Service pd) (pd_Roles pd) (pd_Statuses pd) of
        Inl err \<Rightarrow> []
      | Inr hosts \<Rightarrow>
          if length hosts = 0 then []
          else concat (map (\<lambda>host. [Sleep (spawnInterval (length hosts)), Launch host]) hosts))"

section \<open>Aggregate runner\<close>

text \<open>
  A latest value carries a Unix time in seconds (an \<^verbatim>\<open>int64\<close>) and a value of dynamic
  type (\<^verbatim>\<open>interface{}\<close>), which is a \<^verbatim>\<open>float64\<close> or something else. The result of
  \<^verbatim>\<open>fetchLatestMetricValues\<close> maps a host ID to a map from metric names to pointers, which
  may be nil (\<open>Some None\<close>). Go visits the entries of the outer map in an unspecified
  order: the model is the list of the entries in the order of the visit, and the
  statements below hold for every order.
\<close>

datatype Value = Float64 float64 | NotFloat64

record MetricValue =
  mv_Name :: string
  mv_Time :: int
  mv_Value :: Value

type_synonym LatestMetricValues = "(string \<times> (string \<rightharpoonup> MetricValue option)) list"

record ServiceMetric =
  sm_Service :: string
  sm_Name :: string
  sm_Value :: float64
  sm_Timestamp :: Time

text \<open>The body of the inner loop, on the pair \<^verbatim>\<open>(timestamp, values)\<close>.\<close>

definition accept_value ::
  "Time \<Rightarrow> string \<Rightarrow> float64 \<times> float64 list \<Rightarrow> string \<times> (string \<rightharpoonup> MetricValue option) \<Rightarrow>
   float64 \<times> float64 list" where
  "accept_value now name st entry =
     (case snd entry name of
        None \<Rightarrow> st
      | Some None \<Rightarrow> st
      | Some (Some mv) \<Rightarrow>
          (case mv_Value mv of
             NotFloat64 \<Rightarrow> st
           | Float64 v \<Rightarrow>
               if After (time_Unix (mv_Time mv) 0) (Add now metricTimeMargin)
               then (max (float64_of_int64 (mv_Time mv)) (fst st), snd st @ [v])
               else st))"

text \<open>The \<^verbatim>\<open>switch\<close> on the lowercased name; \<^verbatim>\<open>value\<close> keeps its zero value when no case matches.\<close>

definition output_value :: "string \<Rightarrow> float64 list \<Rightarrow> float64" where
  "output_value func values =
     (let f = ToLower func in
      if f = ''sum'' then sum_go values
      else if f = ''min'' then min_go values
      else if f = ''max'' then max_go values
      else if f = ''avg'' \<or> f = ''average'' then avg_go values
      else if f = ''count'' then count_go values
      else 0)"

text \<open>
  One iteration of the loop over \<^verbatim>\<open>ag.Metrics\<close>: the metrics sent to the channel, in the
  order of the sends.
\<close>

definition aggregate_metric ::
  "Time \<Rightarrow> string \<Rightarrow> LatestMetricValues \<Rightarrow> MetricConfig \<Rightarrow> ServiceMetric list" where
  "aggregate_metric now service latest mc =
     (let st = foldl (accept_value now (mc_Name mc)) (0, []) latest;
          timestamp = fst st;
          values = snd st
      in if length values = 0 then []
         else map (\<lambda>output.
                    \<lparr>sm_Service = service,
                     sm_Name = oc_Name output,
                     sm_Value = output_value (oc_Func output) values,
                     sm_Timestamp = time_Unix (int64_of_float64 timestamp) 0\<rparr>)
                (mc_Outputs mc))"

definition runAggregates ::
  "(string \<Rightarrow> string list \<Rightarrow> string list \<Rightarrow> error + Host list) \<Rightarrow>
   (string list \<Rightarrow> string list \<Rightarrow> error + LatestMetricValues) \<Rightarrow>
   Time \<Rightarrow> AggregateDefinition \<Rightarrow> ServiceMetric list" where
  "runAggregates FindHosts fetchLatestMetricValues now ag =
     (case FindHosts (ad_Service ag) (ad_Roles ag) (ad_Statuses ag) of
        Inl err \<Rightarrow> []
      | Inr hosts \<Rightarrow>
          if length hosts = 0 then []
          else
            let hostIDs = map host_ID hosts;
                metricNames = map mc_Name (ad_Metrics ag)
            in (case fetchLatestMetricValues hostIDs metricNames of
                  Inl err \<Rightarrow> []
                | Inr latest \<Rightarrow>
                    concat (map (aggregate_metric now (ad_Service ag) latest) (ad_Metrics ag))))"

section \<open>Shippers\<close>

text \<open>
  One iteration of the worker's loop takes one outcome of its \<^verbatim>\<open>select\<close>: a metric
  received from the channel, the channel found closed, or a tick. Each outcome is paired
  with the answer the backend gives if the iteration posts: \<open>True\<close> for success. The
  worker's result is its buffer, the batches it posted with their answers, and whether it
  has returned (a worker that has consumed every outcome without seeing the channel
  closed is still waiting). The conversion \<^verbatim>\<open>HostMetricValue()\<close> is a parameter.
\<close>

datatype 'm select = Recv 'm | Closed | Tick

definition flush :: "bool \<Rightarrow> 'v list \<Rightarrow> ('v list \<times> bool) list \<Rightarrow> 'v list \<times> ('v list \<times> bool) list" where
  "flush ok mvs posted =
     (if length mvs = 0 then (mvs, posted)
      else if \<not> ok then (mvs, posted @ [(mvs, False)])
      else ([], posted @ [(mvs, True)]))"

fun worker_loop ::
  "('m \<Rightarrow> 'v) \<Rightarrow> ('m select \<times> bool) list \<Rightarrow> 'v list \<Rightarrow> ('v list \<times> bool) list \<Rightarrow>
   'v list \<times> ('v list \<times> bool) list \<times> bool" where
  "worker_loop conv [] mvs posted = (mvs, posted, False)"
| "worker_loop conv ((Recv m, ok) # evs) mvs posted =
     (let mvs' = mvs @ [conv m] in
      if length mvs' < PostMetricBufferLength then worker_loop conv evs mvs' posted
      else let st = flush ok mvs' posted in worker_loop conv evs (fst st) (snd st))"
| "worker_loop conv ((Closed, ok) # evs) mvs posted =
     (let st = flush ok mvs posted in (fst st, snd st, True))"
| "worker_loop conv ((Tick, ok) # evs) mvs posted =
     (let st = flush ok mvs posted in worker_loop conv evs (fst st) (snd st))"

definition postHostMetricWorker ::
  "('m \<Rightarrow> 'v) \<Rightarrow> ('m select \<times> bool) list \<Rightarrow> 'v list \<times> ('v list \<times> bool) list \<times> bool" where
  "postHostMetricWorker conv evs = worker_loop conv evs [] []"

text \<open>
  The body of \<^verbatim>\<open>postServiceMetricWorker\<close> is \<^verbatim>\<open>defer wg.Done()\<close> alone: it returns at
  once, without receiving from its channel or posting.
\<close>

definition postServiceMetricWorker ::
  "('m select \<times> bool) list \<Rightarrow> 'v list \<times> ('v list \<times> bool) list \<times> bool" where
  "postServiceMetricWorker evs = ([], [], True)"

section \<open>Reloading the configuration\<close>

text \<open>
  \<^verbatim>\<open>reflect.DeepEqual\<close> follows pointers and compares structs field by field and slices
  element by element. Two function values are deeply equal only if both are nil. The two
  configurations compared in \<^verbatim>\<open>Run\<close> are distinct allocations, since \<^verbatim>\<open>LoadConfig\<close>
  builds a new one at every call, so that no two pointers compared are the same pointer.
  The probe configurations, declared elsewhere, are compared by equality; a nil slice and
  an empty one are not told apart.
\<close>

definition DeepEqual_func :: "Reducer option \<Rightarrow> Reducer option \<Rightarrow> bool" where
  "DeepEqual_func f g = (f = None \<and> g = None)"

definition DeepEqual_OutputConfig :: "OutputConfig \<Rightarrow> OutputConfig \<Rightarrow> bool" where
  "DeepEqual_OutputConfig a b =
     (oc_Func a = oc_Func b \<and> oc_Name a = oc_Name b \<and> DeepEqual_func (oc_calc a) (oc_calc b))"

definition DeepEqual_MetricConfig :: "MetricConfig \<Rightarrow> MetricConfig \<Rightarrow> bool" where
  "DeepEqual_MetricConfig a b =
     (mc_Name a = mc_Name b \<and> list_all2 DeepEqual_OutputConfig (mc_Outputs a) (mc_Outputs b))"

definition DeepEqual_AggregateDefinition :: "AggregateDefinition \<Rightarrow> AggregateDefinition \<Rightarrow> bool" where
  "DeepEqual_AggregateDefinition a b =
     (ad_Service a = ad_Service b \<and> ad_Role a = ad_Role b \<and> ad_Roles a = ad_Roles b \<and>
      ad_Statuses a = ad_Statuses b \<and>
      list_all2 DeepEqual_MetricConfig (ad_Metrics a) (ad_Metrics b))"

definition DeepEqual_Config ::
  "('ping, 'tcp, 'http, 'command) Config \<Rightarrow> ('ping, 'tcp, 'http, 'command) Config \<Rightarrow> bool" where
  "DeepEqual_Config a b =
     (location a = location b \<and> APIKey a = APIKey b \<and> Probes a = Probes b \<and>
      PostProbedMetrics a = PostProbedMetrics b \<and>
      list_all2 DeepEqual_AggregateDefinition (Aggregates a) (Aggregates b) \<and>
      PostAggregatedMetrics a = PostAggregatedMetrics b \<and> ProbeOnly a = ProbeOnly b)"

text \<open>
  The end of an iteration of the loop of \<^verbatim>\<open>Run\<close>: given the current configuration and
  what \<^verbatim>\<open>LoadConfig\<close> returned, the configuration of the next iteration and the lines
  logged.
\<close>

definition Run_reload ::
  "('ping, 'tcp, 'http, 'command) Config \<Rightarrow>
   error + ('ping, 'tcp, 'http, 'command) Config \<times> log list \<Rightarrow>
   ('ping, 'tcp, 'http, 'command) Config \<times> log list" where
  "Run_reload conf loaded =
     (case loaded of
        Inl err \<Rightarrow> (conf, [WarnLoad err, WarnStillUsingCurrent])
      | Inr (newConf, logs) \<Rightarrow>
          if \<not> DeepEqual_Config conf newConf then (newConf, logs @ [InfoConfigReloaded])
          else (conf, logs))"

section \<open>Statements of the specification\<close>




text \<open>
  For the shipper: the metrics a worker has received from its channel, the metrics of the
  batches that were posted with success, and the property of a list of posts that every
  failed batch is the beginning of the batch posted next.
\<close>

fun received :: "('m select \<times> bool) list \<Rightarrow> 'm list" where
  "received [] = []"
| "received ((Recv m, ok) # evs) = m # received evs"
| "received ((Closed, ok) # evs) = []"
| "received ((Tick, ok) # evs) = received evs"

definition delivered :: "('v list \<times> bool) list \<Rightarrow> 'v list" where
  "delivered posted = concat (map fst (filter snd posted))"

fun retried_with_prefix :: "('v list \<times> bool) list \<Rightarrow> bool" where
  "retried_with_prefix [] = True"
| "retried_with_prefix [p] = True"
| "retried_with_prefix (p # q # ps) =
     ((if snd p then True else prefix (fst p) (fst q)) \<and> retried_with_prefix (q # ps))"

section \<open>Concrete inputs\<close>

text \<open>
  A configuration after the sample file of the repository: a probe definition with a
  legacy role beside a list of roles, one with a list of roles alone, and an aggregate
  with a legacy role and the outputs \<^verbatim>\<open>sum\<close> and \<^verbatim>\<open>avg\<close>. The probe configurations are
  the unit type here.
\<close>

definition example_fetch :: "string \<Rightarrow> error + string" where
  "example_fetch loc = Inr ''apikey: DUMMY''"

definition example_unmarshal ::
  "string \<Rightarrow> (unit, unit, unit, unit) Config \<Rightarrow> error + (unit, unit, unit, unit) Config" where
  "example_unmarshal b c =
     Inr (c\<lparr>APIKey := ''DUMMY'',
            Probes := [\<lparr>pd_Service = ''prod'', pd_Role = ''EC2'', pd_Roles = [''NLB''],
                        pd_Statuses = [''working'', ''standby''],
                        pd_Ping = Some (), pd_TCP = None, pd_HTTP = None, pd_Command = None\<rparr>,
                       \<lparr>pd_Service = ''prod'', pd_Role = '''', pd_Roles = [''ALB''],
                        pd_Statuses = [], pd_Ping = None, pd_TCP = Some (), pd_HTTP = None,
                        pd_Command = None\<rparr>],
            Aggregates := [\<lparr>ad_Service = ''prod'', ad_Role = ''web'', ad_Roles = [],
                            ad_Statuses = [],
                            ad_Metrics =
                              [\<lparr>mc_Name = ''custom.nginx.requests.requests'',
                                mc_Outputs =
                                  [\<lparr>oc_Func = ''sum'',
                                    oc_Name = ''custom.nginx.requests.sum_requests'',
                                    oc_calc = None\<rparr>,
                                   \<lparr>oc_Func = ''avg'',
                                    oc_Name = ''custom.nginx.requests.avg_requests'',
                                    oc_calc = None\<rparr>]\<rparr>]\<rparr>]\<rparr>)"

definition example_load :: "error + (unit, unit, unit, unit) Config \<times> log list" where
  "example_load = LoadConfig example_fetch example_unmarshal '''' ''config.yaml''"

text \<open>A probe definition without a legacy role whose list of roles holds the empty string.\<close>

definition legacy_role_unset :: "(unit, unit, unit, unit) Config" where
  "legacy_role_unset =
     \<lparr>location = ''config.yaml'', APIKey = ''DUMMY'',
       Probes = [\<lparr>pd_Service = ''prod'', pd_Role = '''', pd_Roles = [''''], pd_Statuses = [],
                  pd_Ping = Some (), pd_TCP = None, pd_HTTP = None, pd_Command = None\<rparr>],
       PostProbedMetrics = True, Aggregates = [], PostAggregatedMetrics = True, ProbeOnly = None\<rparr>"

text \<open>Seventy hosts found for a probe definition.\<close>

definition example_hosts :: "Host list" where
  "example_hosts = replicate 70 \<lparr>host_ID = ''h'', host_Name = ''web''\<rparr>"

definition example_FindHosts :: "string \<Rightarrow> string list \<Rightarrow> string list \<Rightarrow> error + Host list" where
  "example_FindHosts service roles statuses = Inr example_hosts"

definition example_pd :: "(unit, unit, unit, unit) ProbeDefinition" where
  "example_pd = \<lparr>pd_Service = ''prod'', pd_Role = ''EC2'', pd_Roles = [''EC2''], pd_Statuses = [],
                  pd_Ping = Some (), pd_TCP = None, pd_HTTP = None, pd_Command = None\<rparr>"

text \<open>
  Latest values of six hosts for the metric \<^verbatim>\<open>m\<close>: three floating-point samples, of which
  the second is older than three minutes at the instant 1020.5 s; a nil pointer; a host
  without the metric; a value that is not a floating-point number.
\<close>

definition example_latest :: LatestMetricValues where
  "example_latest =
     [(''h1'', [''m'' \<mapsto> Some \<lparr>mv_Name = ''m'', mv_Time = 1000, mv_Value = Float64 1\<rparr>]),
      (''h2'', [''m'' \<mapsto> Some \<lparr>mv_Name = ''m'', mv_Time = 700, mv_Value = Float64 2\<rparr>]),
      (''h3'', [''m'' \<mapsto> Some \<lparr>mv_Name = ''m'', mv_Time = 1010, mv_Value = Float64 3\<rparr>]),
      (''h4'', [''m'' \<mapsto> None]),
      (''h5'', [''x'' \<mapsto> Some \<lparr>mv_Name = ''x'', mv_Time = 1011, mv_Value = Float64 9\<rparr>]),
      (''h6'', [''m'' \<mapsto> Some \<lparr>mv_Name = ''m'', mv_Time = 1012, mv_Value = NotFloat64\<rparr>])]"


text \<open>An aggregate whose only output names a function that is not a reducer.\<close>

definition unknown_func_ad :: AggregateDefinition where
  "unknown_func_ad =
     \<lparr>ad_Service = ''prod'', ad_Role = ''web'', ad_Roles = [''web''], ad_Statuses = [],
      ad_Metrics = [\<lparr>mc_Name = ''m'',
                      mc_Outputs = [\<lparr>oc_Func = ''median'', oc_Name = ''m_median'',
                                      oc_calc = None\<rparr>]\<rparr>]\<rparr>"

definition unknown_func_config :: "(unit, unit, unit, unit) Config" where
  "unknown_func_config =
     \<lparr>location = ''config.yaml'', APIKey = ''DUMMY'', Probes = [], PostProbedMetrics = True,
       Aggregates = [unknown_func_ad], PostAggregatedMetrics = True, ProbeOnly = None\<rparr>"

definition one_host :: "string \<Rightarrow> string list \<Rightarrow> string list \<Rightarrow> error + Host list" where
  "one_host service roles statuses = Inr [\<lparr>host_ID = ''h1'', host_Name = ''web1''\<rparr>]"

definition fetch_example_latest :: "string list \<Rightarrow> string list \<Rightarrow> error + LatestMetricValues" where
  "fetch_example_latest hostIDs metricNames = Inr example_latest"



text \<open>A service metric, and the outcomes of the selects of a worker.\<close>

definition example_sm :: ServiceMetric where
  "example_sm = \<lparr>sm_Service = ''prod'', sm_Name = ''m_sum'', sm_Value = 4,
                  sm_Timestamp = 1010000000000\<rparr>"

definition fail_then_receive :: "(nat select \<times> bool) list" where
  "fail_then_receive = [(Recv 1, True), (Tick, False), (Recv 2, True), (Tick, True)]"

section \<open>Properties of the reducers\<close>

lemma foldl_min_seed: "foldl (\<lambda>value v. min v value) (a::real) xs = Min (insert a (set xs))"
proof (induction xs arbitrary: a)
  case Nil
  show ?case by simp
next
  case (Cons x xs)
  have "Min (insert (min x a) (set xs)) = Min (insert a (insert x (set xs)))"
    by (cases "set xs = {}") (simp_all add: min.commute min.left_commute)
  with Cons show ?case by simp
qed

lemma foldl_max_seed: "foldl (\<lambda>value v. max v value) (a::real) xs = Max (insert a (set xs))"
proof (induction xs arbitrary: a)
  case Nil
  show ?case by simp
next
  case (Cons x xs)
  have "Max (insert (max x a) (set xs)) = Max (insert a (insert x (set xs)))"
    by (cases "set xs = {}") (simp_all add: max.commute max.left_commute)
  with Cons show ?case by simp
qed

lemma min_go_zero_seed: "min_go xs = Min (insert 0 (set xs))"
  by (simp add: min_go_def foldl_min_seed)

lemma max_go_zero_seed: "max_go xs = Max (insert 0 (set xs))"
  by (simp add: max_go_def foldl_max_seed)

text \<open>
  Claim C1 (min and max return the true extremum of a non-empty list, the first element
  being the seed). The code seeds the accumulator with 0 instead: on the all-positive list
  [1, 2] \<^verbatim>\<open>min\<close> returns 0 although the minimum is 1, and on the all-negative list
  [-1, -2] \<^verbatim>\<open>max\<close> returns 0 although the maximum is -1.
\<close>

theorem min_max_zero_seed_at_input:
  "min_go [1, 2] = 0 \<and> Min (set [1, 2 :: real]) = 1 \<and>
   max_go [-1, -2] = 0 \<and> Max (set [-1, -2 :: real]) = -1"
  by (simp add: min_go_def max_go_def)

section \<open>Properties of the configuration\<close>

subsection \<open>GenerateProbes\<close>

lemma generate_one_eq:
  "generate_one kind config gen host st =
     (fst st @ [p. Some (Inr p) \<leftarrow> [map_option (\<lambda>cfg. gen cfg host) config]],
      snd st @ [ErrorCannotGenerate kind err.
                  Some (Inl err) \<leftarrow> [map_option (\<lambda>cfg. gen cfg host) config]])"
  by (cases st) (simp add: generate_one_def split: option.splits sum.splits)

text \<open>
  Claim C10. For every probe definition and host, \<^verbatim>\<open>GenerateProbes\<close> returns the probes
  of the populated variants whose generation succeeded, in the order ping, tcp, http,
  command; a variant whose generation fails is logged and contributes no probe, and the
  probes of the other variants are returned all the same. The four attempts are listed in
  that order; the result is the list of the successes, and the log the list of the
  failures.
\<close>

theorem GenerateProbes_fixed_order:
  "GenerateProbes genPing genTCP genHTTP genCommand pd host =
     ([p. Some (Inr p) \<leftarrow>
            [map_option (\<lambda>cfg. genPing cfg host) (pd_Ping pd),
             map_option (\<lambda>cfg. genTCP cfg host) (pd_TCP pd),
             map_option (\<lambda>cfg. genHTTP cfg host) (pd_HTTP pd),
             map_option (\<lambda>cfg. genCommand cfg host) (pd_Command pd)]],
      [ErrorCannotGenerate kind err. (kind, Some (Inl err)) \<leftarrow>
            [(''ping'', map_option (\<lambda>cfg. genPing cfg host) (pd_Ping pd)),
             (''tcp'', map_option (\<lambda>cfg. genTCP cfg host) (pd_TCP pd)),
             (''http'', map_option (\<lambda>cfg. genHTTP cfg host) (pd_HTTP pd)),
             (''command'', map_option (\<lambda>cfg. genCommand cfg host) (pd_Command pd))]])"
  unfolding GenerateProbes_def Let_def generate_one_eq by simp

text \<open>
  At a definition with ping, tcp and command populated, where the ping probe cannot be
  generated: the tcp and command probes are returned, in this order, and the failure is
  logged.
\<close>

theorem GenerateProbes_fixed_order_witness:
  "GenerateProbes (\<lambda>cfg host. Inl (ErrExternal ''invalid address''))
      (\<lambda>cfg host. Inr (''tcp '' @ cfg @ host)) (\<lambda>cfg host. Inr (''http '' @ cfg @ host))
      (\<lambda>cfg host. Inr (''command '' @ cfg @ host))
      \<lparr>pd_Service = ''prod'', pd_Role = ''web'', pd_Roles = [''web''], pd_Statuses = [],
        pd_Ping = Some ''a'', pd_TCP = Some ''b'', pd_HTTP = None, pd_Command = Some ''d''\<rparr>
      ''h1'' =
     ([''tcp bh1'', ''command dh1''], [ErrorCannotGenerate ''ping'' (ErrExternal ''invalid address'')])"
  using GenerateProbes_fixed_order
    [of "\<lambda>cfg host. Inl (ErrExternal ''invalid address'')"
        "\<lambda>cfg host. Inr (''tcp '' @ cfg @ host)" "\<lambda>cfg host. Inr (''http '' @ cfg @ host)"
        "\<lambda>cfg host. Inr (''command '' @ cfg @ host)"
        "\<lparr>pd_Service = ''prod'', pd_Role = ''web'', pd_Roles = [''web''], pd_Statuses = [],
          pd_Ping = Some ''a'', pd_TCP = Some ''b'', pd_HTTP = None, pd_Command = Some ''d''\<rparr>"
        "''h1''"]
  by simp

subsection \<open>initialize and LoadConfig\<close>

lemma validate_Probes: "validate c = Inr (conf, logs) \<Longrightarrow> Probes conf = Probes c"
  by (auto simp: validate_def Let_def split: if_splits option.splits)

lemma validate_ad_Role: "ad_Role (fst (validate_ad ad)) = ad_Role ad"
  by (simp add: validate_ad_def Let_def)

lemma validate_ad_Roles: "ad_Roles (fst (validate_ad ad)) = ad_Roles ad"
  by (simp add: validate_ad_def Let_def)

lemma validate_Aggregates:
  "validate c = Inr (conf, logs) \<Longrightarrow> Aggregates conf = map (fst \<circ> validate_ad) (Aggregates c)"
  by (auto simp: validate_def Let_def split: if_splits option.splits)

text \<open>
  Claim C8, as amended. After a configuration is loaded, the roles of every probe
  definition and of every aggregate definition are the roles of the list form, with the
  legacy role appended when it is set (not empty). Hence a legacy role that is set is a
  member of the roles; a legacy role that is not set is a member only if the list form
  holds the empty string itself. Here \<open>c\<close> is the configuration as parsed and \<open>conf\<close> the
  configuration that \<^verbatim>\<open>LoadConfig\<close> returns.
\<close>

theorem LoadConfig_roles:
  assumes f: "fetch loc = Inr b"
    and u: "unmarshal b \<lparr>location = loc, APIKey = env, Probes = [], PostProbedMetrics = True,
               Aggregates = [], PostAggregatedMetrics = True, ProbeOnly = None\<rparr> = Inr c"
    and l: "LoadConfig fetch unmarshal env loc = Inr (conf, logs)"
  shows "list_all2 (\<lambda>pd pd'. pd_Role pd' = pd_Role pd \<and>
                      pd_Roles pd' = pd_Roles pd @ (if pd_Role pd \<noteq> '''' then [pd_Role pd] else []) \<and>
                      (pd_Role pd' \<in> set (pd_Roles pd') \<longleftrightarrow>
                         pd_Role pd \<noteq> '''' \<or> '''' \<in> set (pd_Roles pd)))
           (Probes c) (Probes conf) \<and>
         list_all2 (\<lambda>ad ad'. ad_Role ad' = ad_Role ad \<and>
                      ad_Roles ad' = ad_Roles ad @ (if ad_Role ad \<noteq> '''' then [ad_Role ad] else []) \<and>
                      (ad_Role ad' \<in> set (ad_Roles ad') \<longleftrightarrow>
                         ad_Role ad \<noteq> '''' \<or> '''' \<in> set (ad_Roles ad)))
           (Aggregates c) (Aggregates conf)"
proof -
  from f u l have v: "validate (initialize c) = Inr (conf, logs)"
    by (simp add: LoadConfig_def)
  have p: "Probes conf = map initialize_pd (Probes c)"
    using validate_Probes [OF v] by (simp add: initialize_def)
  have a: "Aggregates conf = map (fst \<circ> validate_ad \<circ> initialize_ad) (Aggregates c)"
    using validate_Aggregates [OF v] by (simp add: initialize_def)
  have "list_all2 (\<lambda>pd pd'. pd_Role pd' = pd_Role pd \<and>
                      pd_Roles pd' = pd_Roles pd @ (if pd_Role pd \<noteq> '''' then [pd_Role pd] else []) \<and>
                      (pd_Role pd' \<in> set (pd_Roles pd') \<longleftrightarrow>
                         pd_Role pd \<noteq> '''' \<or> '''' \<in> set (pd_Roles pd)))
           (Probes c) (Probes conf)"
    unfolding p list_all2_map2
    by (rule list_all2_refl) (auto simp: initialize_pd_def)
  moreover have "list_all2 (\<lambda>ad ad'. ad_Role ad' = ad_Role ad \<and>
                      ad_Roles ad' = ad_Roles ad @ (if ad_Role ad \<noteq> '''' then [ad_Role ad] else []) \<and>
                      (ad_Role ad' \<in> set (ad_Roles ad') \<longleftrightarrow>
                         ad_Role ad \<noteq> '''' \<or> '''' \<in> set (ad_Roles ad)))
           (Aggregates c) (Aggregates conf)"
    unfolding a list_all2_map2
    by (rule list_all2_refl) (auto simp: initialize_ad_def validate_ad_Role validate_ad_Roles)
  ultimately show ?thesis by simp
qed

text \<open>
  On the sample configuration the load succeeds; the roles of the two probe definitions
  become NLB, EC2 and ALB, and those of the aggregate become web.
\<close>

theorem LoadConfig_roles_witness:
  "example_fetch ''config.yaml'' = Inr ''apikey: DUMMY'' \<and>
   (\<exists>c conf logs.
      example_unmarshal ''apikey: DUMMY''
        \<lparr>location = ''config.yaml'', APIKey = '''', Probes = [], PostProbedMetrics = True,
          Aggregates = [], PostAggregatedMetrics = True, ProbeOnly = None\<rparr> = Inr c \<and>
      LoadConfig example_fetch example_unmarshal '''' ''config.yaml'' = Inr (conf, logs) \<and>
      map pd_Roles (Probes conf) = [[''NLB'', ''EC2''], [''ALB'']] \<and>
      map ad_Roles (Aggregates conf) = [[''web'']] \<and>
      list_all2 (\<lambda>pd pd'. pd_Role pd' = pd_Role pd \<and>
                      pd_Roles pd' = pd_Roles pd @ (if pd_Role pd \<noteq> '''' then [pd_Role pd] else []) \<and>
                      (pd_Role pd' \<in> set (pd_Roles pd') \<longleftrightarrow>
                         pd_Role pd \<noteq> '''' \<or> '''' \<in> set (pd_Roles pd)))
           (Probes c) (Probes conf))"
proof -
  have f: "example_fetch ''config.yaml'' = Inr ''apikey: DUMMY''"
    by (simp add: example_fetch_def)
  obtain c where u: "example_unmarshal ''apikey: DUMMY''
        \<lparr>location = ''config.yaml'', APIKey = '''', Probes = [], PostProbedMetrics = True,
          Aggregates = [], PostAggregatedMetrics = True, ProbeOnly = None\<rparr> = Inr c"
    by (simp add: example_unmarshal_def)
  obtain conf logs
    where l: "LoadConfig example_fetch example_unmarshal '''' ''config.yaml'' = Inr (conf, logs)"
    using f u
    by (cases "validate (initialize c)")
       (auto simp: LoadConfig_def example_unmarshal_def validate_def initialize_def
          split: if_splits)
  have r: "map pd_Roles (Probes conf) = [[''NLB'', ''EC2''], [''ALB'']] \<and>
           map ad_Roles (Aggregates conf) = [[''web'']]"
    using l f u
    by (auto simp: LoadConfig_def example_unmarshal_def validate_def initialize_def
        initialize_pd_def initialize_ad_def validate_ad_def Let_def)
  note t = LoadConfig_roles [OF f u l, THEN conjunct1]
  show ?thesis
    by (rule conjI [OF f], rule exI [of _ c], rule exI [of _ conf], rule exI [of _ logs])
       (intro conjI u l t r [THEN conjunct1] r [THEN conjunct2])
qed

text \<open>
  Claim C8 as it is stated fails where the legacy role is not set and the list form holds
  the empty string: the role is then a member of the roles although it was not set.
\<close>

theorem role_member_unset_counterexample:
  "pd_Role (hd (Probes legacy_role_unset)) = '''' \<and>
   pd_Role (hd (Probes (initialize legacy_role_unset)))
     \<in> set (pd_Roles (hd (Probes (initialize legacy_role_unset))))"
  by (simp add: legacy_role_unset_def initialize_def initialize_pd_def)

section \<open>Properties of the probe runner\<close>

lemma spawnInterval_eq:
  assumes "0 < n"
  shows "spawnInterval n = min (ProbeInterval div (2 * int n)) Second"
proof -
  have p: "0 \<le> ProbeInterval" by (simp add: ProbeInterval_def Second_def)
  have "ProbeInterval sdiv int n = ProbeInterval div int n"
    using assms p by (simp add: signed_divide_int_def sgn_if ProbeInterval_def Second_def)
  moreover have "0 \<le> ProbeInterval div int n"
    using assms p by (simp add: pos_imp_zdiv_nonneg_iff)
  then have "(ProbeInterval div int n) sdiv 2 = ProbeInterval div int n div 2"
    by (simp add: signed_divide_int_def sgn_if)
  moreover have "ProbeInterval div int n div 2 = ProbeInterval div (2 * int n)"
    by (simp add: zdiv_zmult2_eq mult.commute)
  ultimately show ?thesis
    by (simp add: spawnInterval_def Let_def min_def)
qed

lemma spawnInterval_zero_iff:
  assumes "0 < n"
  shows "spawnInterval n = 0 \<longleftrightarrow> 30000000000 < n"
proof -
  have "60000000000 div (2 * int n) = 0 \<longleftrightarrow> 60000000000 < 2 * int n"
    using assms by (simp add: zdiv_eq_0_iff)
  then show ?thesis
    using assms by (auto simp add: spawnInterval_eq min_def ProbeInterval_def Second_def)
qed

text \<open>
  Claim C9. For a non-empty list of hosts returned by the discovery, the interval is the
  lesser of \<open>ProbeInterval div (2 * n)\<close> (integer division of nanoseconds) and one second,
  and the runner sleeps for it before it launches each host task, in the order of the
  list. The interval is zero exactly when there are more than 30 000 000 000 hosts.
\<close>

theorem runProbes_spawn_interval:
  assumes "FindHosts (pd_Service pd) (pd_Roles pd) (pd_Statuses pd) = Inr hosts"
    and "hosts \<noteq> []"
  shows "spawnInterval (length hosts) = min (ProbeInterval div (2 * int (length hosts))) Second \<and>
         runProbes FindHosts pd =
           concat (map (\<lambda>host. [Sleep (min (ProbeInterval div (2 * int (length hosts))) Second),
                                 Launch host]) hosts) \<and>
         (spawnInterval (length hosts) = 0 \<longleftrightarrow> 30000000000 < length hosts)"
proof -
  have n: "0 < length hosts" using assms(2) by simp
  have "runProbes FindHosts pd =
           concat (map (\<lambda>host. [Sleep (spawnInterval (length hosts)), Launch host]) hosts)"
    using assms by (simp add: runProbes_def)
  with spawnInterval_eq [OF n] spawnInterval_zero_iff [OF n] show ?thesis by simp
qed

text \<open>With seventy hosts the interval is 60 s / 140 truncated, 428 571 428 ns.\<close>

theorem runProbes_spawn_interval_witness:
  "example_FindHosts (pd_Service example_pd) (pd_Roles example_pd) (pd_Statuses example_pd) =
     Inr example_hosts \<and>
   example_hosts \<noteq> [] \<and>
   spawnInterval (length example_hosts) = 428571428 \<and>
   runProbes example_FindHosts example_pd =
     concat (map (\<lambda>host. [Sleep 428571428, Launch host]) example_hosts)"
proof -
  have f: "example_FindHosts (pd_Service example_pd) (pd_Roles example_pd) (pd_Statuses example_pd) =
     Inr example_hosts"
    by (simp add: example_FindHosts_def)
  have ne: "example_hosts \<noteq> []"
    by (simp add: example_hosts_def)
  have v: "min (ProbeInterval div (2 * int (length example_hosts))) Second = 428571428"
    by (simp add: example_hosts_def ProbeInterval_def Second_def)
  from runProbes_spawn_interval [of example_FindHosts example_pd example_hosts, OF f ne] f ne
  show ?thesis
    unfolding v by simp
qed

section \<open>Properties of the aggregate runner\<close>





















text \<open>
  Claim C3 (an output whose function is not a reducer is warned about at validation,
  without an error, and is skipped at aggregation: no service metric is emitted for it).
  The first half holds. At aggregation the \<^verbatim>\<open>switch\<close> has no case for an unknown name and
  the metric is sent all the same, with the zero value: for the output \<^verbatim>\<open>median\<close> and the
  fresh samples 1 and 3 the runner emits the metric \<^verbatim>\<open>m_median\<close> with value 0.
\<close>

theorem unknown_func_emits_zero:
  "validate unknown_func_config =
     Inr (unknown_func_config, [WarnFuncNotAvailable ''median'' ''m'']) \<and>
   runAggregates one_host fetch_example_latest 1020500000000 unknown_func_ad =
     [\<lparr>sm_Service = ''prod'', sm_Name = ''m_median'', sm_Value = 0,
       sm_Timestamp = 1010000000000\<rparr>]"
  by (simp add: validate_def unknown_func_config_def unknown_func_ad_def validate_ad_def
      validate_mc_def validate_output_def ToLower_def lower_char_def Let_def
      runAggregates_def one_host_def fetch_example_latest_def example_latest_def
      aggregate_metric_def accept_value_def After_def time_Unix_def Add_def
      metricTimeMargin_def Minute_def Second_def float64_of_int64_def int64_of_float64_def
      output_value_def)

section \<open>Properties of the shippers\<close>

lemma flush_cases:
  "flush ok mvs posted =
     (if mvs = [] then (mvs, posted)
      else if ok then ([], posted @ [(mvs, True)])
      else (mvs, posted @ [(mvs, False)]))"
  by (simp add: flush_def)

lemma flush_delivered:
  "delivered (snd (flush ok mvs posted)) @ fst (flush ok mvs posted) = delivered posted @ mvs"
  by (simp add: flush_cases delivered_def)

lemma worker_loop_conserves:
  "worker_loop conv evs mvs posted = (mvs', posted', returned) \<Longrightarrow>
   delivered posted' @ mvs' = delivered posted @ mvs @ map conv (received evs)"
proof (induction conv evs mvs posted rule: worker_loop.induct)
  case (1 conv mvs posted)
  then show ?case by simp
next
  case (2 conv m ok evs mvs posted)
  show ?case
  proof (cases "length (mvs @ [conv m]) < PostMetricBufferLength")
    case True
    with 2 show ?thesis by (simp add: Let_def)
  next
    case False
    with 2 have "delivered posted' @ mvs' =
      delivered (snd (flush ok (mvs @ [conv m]) posted)) @ fst (flush ok (mvs @ [conv m]) posted)
        @ map conv (received evs)"
      by (simp add: Let_def)
    also have "\<dots> = (delivered posted @ mvs @ [conv m]) @ map conv (received evs)"
      using flush_delivered [of ok "mvs @ [conv m]" posted] by simp
    finally show ?thesis by simp
  qed
next
  case (3 conv ok evs mvs posted)
  then show ?case
    using flush_delivered [of ok mvs posted] by (auto simp: Let_def)
next
  case (4 conv ok evs mvs posted)
  then have "delivered posted' @ mvs' =
      delivered (snd (flush ok mvs posted)) @ fst (flush ok mvs posted) @ map conv (received evs)"
    by (simp add: Let_def)
  also have "\<dots> = (delivered posted @ mvs) @ map conv (received evs)"
    using flush_delivered [of ok mvs posted] by simp
  finally show ?case by simp
qed

text \<open>
  The invariant of the loop: the posts so far have the property, and the last batch, when
  it failed, is the beginning of the buffer.
\<close>

lemma retried_with_prefix_snoc:
  "retried_with_prefix (ps @ [q]) \<longleftrightarrow>
     retried_with_prefix ps \<and> (ps = [] \<or> snd (last ps) \<or> prefix (fst (last ps)) (fst q))"
proof (induction ps rule: retried_with_prefix.induct)
  case 1
  show ?case by simp
next
  case (2 p)
  show ?case by simp
next
  case (3 p q' ps)
  then show ?case by auto
qed

lemma pending_flush:
  assumes "retried_with_prefix posted"
    and "posted = [] \<or> snd (last posted) \<or> prefix (fst (last posted)) mvs"
  shows "retried_with_prefix (snd (flush ok mvs posted)) \<and>
         (snd (flush ok mvs posted) = [] \<or> snd (last (snd (flush ok mvs posted))) \<or>
          prefix (fst (last (snd (flush ok mvs posted)))) (fst (flush ok mvs posted)))"
  using assms by (auto simp: flush_cases retried_with_prefix_snoc)

lemma worker_loop_pending:
  "worker_loop conv evs mvs posted = (mvs', posted', returned) \<Longrightarrow>
   retried_with_prefix posted \<Longrightarrow>
   posted = [] \<or> snd (last posted) \<or> prefix (fst (last posted)) mvs \<Longrightarrow>
   retried_with_prefix posted'"
proof (induction conv evs mvs posted rule: worker_loop.induct)
  case (1 conv mvs posted)
  then show ?case by simp
next
  case (2 conv m ok evs mvs posted)
  have a: "posted = [] \<or> snd (last posted) \<or> prefix (fst (last posted)) (mvs @ [conv m])"
    using 2(5) by auto
  show ?case
  proof (cases "length (mvs @ [conv m]) < PostMetricBufferLength")
    case True
    with 2 a show ?thesis by (simp add: Let_def)
  next
    case False
    with 2 pending_flush [OF 2(4) a, of ok] show ?thesis by (simp add: Let_def)
  qed
next
  case (3 conv ok evs mvs posted)
  then show ?case using pending_flush [of posted mvs ok] by (auto simp: Let_def)
next
  case (4 conv ok evs mvs posted)
  with pending_flush [OF 4(3) 4(4), of ok] show ?case by (simp add: Let_def)
qed

text \<open>
  Claim C5, as amended. In the host-metric shipper a failed POST leaves the buffer as it
  is and only a successful POST empties it. Whatever the outcomes of the selects and of
  the posts, the metrics received so far are exactly the batches posted with success
  followed by the buffer, in the order of their arrival: none is dropped in the loop and
  none is posted with success twice. Every failed batch is the beginning of the batch
  posted next: the retry carries the failed batch followed by the metrics received since,
  so it is the identical batch only if none arrived in between.
\<close>

theorem postHostMetricWorker_retains_on_failure:
  "fst (flush False mvs posted) = mvs \<and>
   (ok \<longrightarrow> fst (flush ok mvs posted) = []) \<and>
   delivered (fst (snd (postHostMetricWorker conv evs))) @ fst (postHostMetricWorker conv evs) =
     map conv (received evs) \<and>
   retried_with_prefix (fst (snd (postHostMetricWorker conv evs)))"
proof -
  obtain mvs' posted' returned
    where w: "worker_loop conv evs [] [] = (mvs', posted', returned)"
    by (cases "worker_loop conv evs [] []") auto
  have "delivered posted' @ mvs' = map conv (received evs)"
    using worker_loop_conserves [OF w] by (simp add: delivered_def)
  moreover have "retried_with_prefix posted'"
    using worker_loop_pending [OF w] by simp
  ultimately show ?thesis
    by (simp add: postHostMetricWorker_def w flush_cases)
qed

text \<open>
  A metric is received, a tick posts it and the post fails; a second metric is received
  and the next tick posts both with success.
\<close>

theorem postHostMetricWorker_retains_on_failure_witness:
  "fst (flush False [1 :: nat] []) = [1] \<and>
   fst (flush True [1 :: nat] []) = [] \<and>
   delivered (fst (snd (postHostMetricWorker id fail_then_receive))) @
     fst (postHostMetricWorker id fail_then_receive) = [1, 2] \<and>
   retried_with_prefix (fst (snd (postHostMetricWorker id fail_then_receive)))"
  using postHostMetricWorker_retains_on_failure [of "[1 :: nat]" "[]" True id fail_then_receive]
  by (simp add: fail_then_receive_def)

text \<open>
  Claim C5 as it is stated fails where a metric arrives between the failed post and the
  next one: the batch posted after the failed batch 1 is 1, 2, not the identical batch.
\<close>

theorem retry_batch_grows_counterexample:
  "postHostMetricWorker id fail_then_receive = ([], [([1], False), ([1, 2], True)], False) \<and>
   [1 :: nat] \<noteq> [1, 2]"
  by (simp add: postHostMetricWorker_def fail_then_receive_def flush_def
      PostMetricBufferLength_def Let_def)

text \<open>
  Claim C2 (the service-metric shipper has the contract of the host-metric shipper: it
  consumes its channel, buffers, flushes by posting, and retries a failed batch). The
  body of the worker of the code is empty: on a metric received and the channel closed,
  where the host-metric worker posts the metric, the service-metric worker has posted
  nothing.
\<close>

theorem postServiceMetricWorker_posts_nothing:
  "postServiceMetricWorker [(Recv example_sm, True), (Closed, True)] =
     ([] :: ServiceMetric list, [], True) \<and>
   postHostMetricWorker id [(Recv example_sm, True), (Closed, True)] =
     ([], [([example_sm], True)], True)"
  by (simp add: postServiceMetricWorker_def postHostMetricWorker_def flush_def
      PostMetricBufferLength_def Let_def)

section \<open>Properties of the reload\<close>

text \<open>
  A configuration that holds an output with a bound reducer is not deeply equal to a
  copy of itself.
\<close>

lemma DeepEqual_Config_bound_reducer:
  assumes "ag \<in> set (Aggregates c)" "mc \<in> set (ad_Metrics ag)" "oc \<in> set (mc_Outputs mc)"
    and "oc_calc oc \<noteq> None"
  shows "\<not> DeepEqual_Config c c"
proof -
  have "\<not> DeepEqual_OutputConfig oc oc"
    using assms(4) by (simp add: DeepEqual_OutputConfig_def DeepEqual_func_def)
  then have "\<not> list_all2 DeepEqual_OutputConfig (mc_Outputs mc) (mc_Outputs mc)"
    using assms(3) by (auto simp: list_all2_same)
  then have "\<not> DeepEqual_MetricConfig mc mc"
    by (simp add: DeepEqual_MetricConfig_def)
  then have "\<not> list_all2 DeepEqual_MetricConfig (ad_Metrics ag) (ad_Metrics ag)"
    using assms(2) by (auto simp: list_all2_same)
  then have "\<not> DeepEqual_AggregateDefinition ag ag"
    by (simp add: DeepEqual_AggregateDefinition_def)
  then have "\<not> list_all2 DeepEqual_AggregateDefinition (Aggregates c) (Aggregates c)"
    using assms(1) by (auto simp: list_all2_same)
  then show ?thesis by (simp add: DeepEqual_Config_def)
qed

lemma example_load_eq:
  "example_load =
     Inr (\<lparr>location = ''config.yaml'', APIKey = ''DUMMY'',
           Probes =
             [\<lparr>pd_Service = ''prod'', pd_Role = ''EC2'', pd_Roles = [''NLB'', ''EC2''],
               pd_Statuses = [''working'', ''standby''], pd_Ping = Some (),
               pd_TCP = None, pd_HTTP = None, pd_Command = None\<rparr>,
              \<lparr>pd_Service = ''prod'', pd_Role = '''', pd_Roles = [''ALB''],
               pd_Statuses = [], pd_Ping = None, pd_TCP = Some (),
               pd_HTTP = None, pd_Command = None\<rparr>],
           PostProbedMetrics = True,
           Aggregates =
             [\<lparr>ad_Service = ''prod'', ad_Role = ''web'', ad_Roles = [''web''],
               ad_Statuses = [],
               ad_Metrics =
                 [\<lparr>mc_Name = ''custom.nginx.requests.requests'',
                   mc_Outputs =
                     [\<lparr>oc_Func = ''sum'', oc_Name = ''custom.nginx.requests.sum_requests'',
                       oc_calc = Some RSum\<rparr>,
                      \<lparr>oc_Func = ''avg'', oc_Name = ''custom.nginx.requests.avg_requests'',
                       oc_calc = Some RAvg\<rparr>]\<rparr>]\<rparr>],
           PostAggregatedMetrics = True, ProbeOnly = None\<rparr>,
          [])"
  by (simp add: example_load_def LoadConfig_def example_fetch_def example_unmarshal_def
      validate_def initialize_def initialize_pd_def initialize_ad_def validate_ad_def
      validate_mc_def validate_output_def ToLower_def lower_char_def Let_def)

text \<open>
  Claim C4 (a reload that yields a configuration identical to the current one neither
  swaps the configuration nor logs a reload). The comparison of the code includes the
  bound reducers, which are function values and never deeply equal: the sample
  configuration, loaded a second time from the same bytes, is not deeply equal to itself
  as loaded the first time, and the reload is taken and logged.
\<close>

theorem reload_identical_config_swaps:
  "\<not> isl example_load \<and>
   \<not> DeepEqual_Config (fst (projr example_load)) (fst (projr example_load)) \<and>
   Run_reload (fst (projr example_load)) example_load =
     (fst (projr example_load), [InfoConfigReloaded])"
  by (simp add: example_load_eq Run_reload_def DeepEqual_Config_def
      DeepEqual_AggregateDefinition_def DeepEqual_MetricConfig_def DeepEqual_OutputConfig_def
      DeepEqual_func_def)

end
